theory Spec2Isabelle
  imports Main
begin

section \<open>Python built-ins used by the handlers\<close>

text \<open>
  Strings are lists of characters; the model covers ASCII text, where Python's
  \<^verbatim>\<open>str.lower\<close>, \<^verbatim>\<open>str.upper\<close> and \<^verbatim>\<open>len\<close> act character by character.
\<close>

definition lower_char :: "char \<Rightarrow> char" where
  "lower_char c =
     (case map_of (zip ''ABCDEFGHIJKLMNOPQRSTUVWXYZ'' ''abcdefghijklmnopqrstuvwxyz'') c of
        Some l \<Rightarrow> l
      | None \<Rightarrow> c)"

definition upper_char :: "char \<Rightarrow> char" where
  "upper_char c =
     (case map_of (zip ''abcdefghijklmnopqrstuvwxyz'' ''ABCDEFGHIJKLMNOPQRSTUVWXYZ'') c of
        Some u \<Rightarrow> u
      | None \<Rightarrow> c)"

definition lower :: "string \<Rightarrow> string" where
  "lower s = map lower_char s"

definition upper :: "string \<Rightarrow> string" where
  "upper s = map upper_char s"

text \<open>\<^verbatim>\<open>s.endswith(suffix)\<close>, written by recursion on the reversed strings.\<close>

fun startswith :: "string \<Rightarrow> string \<Rightarrow> bool" where
  "startswith s [] = True"
| "startswith [] (p # ps) = False"
| "startswith (c # cs) (p # ps) = (c = p \<and> startswith cs ps)"

definition endswith :: "string \<Rightarrow> string \<Rightarrow> bool" where
  "endswith s suffix = startswith (rev s) (rev suffix)"

text \<open>\<^verbatim>\<open>sub in s\<close> for strings: \<open>sub\<close> occurs as a contiguous piece of \<open>s\<close>.\<close>

fun contains :: "string \<Rightarrow> string \<Rightarrow> bool" where
  "contains [] sub = (sub = [])"
| "contains (c # cs) sub = (startswith (c # cs) sub \<or> contains cs sub)"

text \<open>\<^verbatim>\<open>s.split(sep)\<close> for a separator of one character; the result is never empty.\<close>

fun split_on :: "char \<Rightarrow> string \<Rightarrow> string list" where
  "split_on sep [] = [[]]"
| "split_on sep (c # cs) =
     (if c = sep then [] # split_on sep cs
      else (case split_on sep cs of
              [] \<Rightarrow> [[c]]
            | w # ws \<Rightarrow> (c # w) # ws))"

text \<open>\<^verbatim>\<open>range(a, b)\<close> as the list of its integers.\<close>

definition range_list :: "int \<Rightarrow> int \<Rightarrow> int list" where
  "range_list a b = [a..b - 1]"

subsection \<open>Exceptions\<close>

text \<open>
  Every exception the handlers can see is a value. The detail of an
  \<^verbatim>\<open>HTTPException\<close> is either a message written in the source or
  \<^verbatim>\<open>str(e)\<close> of a caught exception, kept symbolic as \<open>StrOf e\<close>.
\<close>

datatype exn =
    HTTPException nat detail
  | ValueError
  | IndexError
  | KeyError
  | FileNotFoundError
  | PdfReadError
  | FileNotDecryptedError
and detail =
    Msg string
  | StrOf exn

subsection \<open>\<^verbatim>\<open>int(s)\<close> and \<^verbatim>\<open>str(n)\<close>\<close>

text \<open>
  \<^verbatim>\<open>int(s)\<close> on an ASCII string: surrounding whitespace is stripped, one sign is
  allowed, then decimal digits, single underscores allowed between digits. Anything else
  raises \<^verbatim>\<open>ValueError\<close>.
\<close>

definition is_space :: "char \<Rightarrow> bool" where
  "is_space c =
     (c \<in> set [CHR 0x09, CHR 0x0A, CHR 0x0B, CHR 0x0C, CHR 0x0D,
                CHR 0x1C, CHR 0x1D, CHR 0x1E, CHR 0x1F, CHR '' ''])"

definition digit_val :: "char \<Rightarrow> int option" where
  "digit_val c = map_of (zip ''0123456789'' [0, 1, 2, 3, 4, 5, 6, 7, 8, 9]) c"

definition strip :: "string \<Rightarrow> string" where
  "strip s = rev (dropWhile is_space (rev (dropWhile is_space s)))"

text \<open>
  \<open>digits acc after_digit s\<close> reads the rest of a literal: \<open>after_digit\<close> says that
  the previous character was a digit, so that an underscore may follow.
\<close>

fun digits :: "int \<Rightarrow> bool \<Rightarrow> string \<Rightarrow> int option" where
  "digits acc after_digit [] = (if after_digit then Some acc else None)"
| "digits acc after_digit (c # cs) =
     (case digit_val c of
        Some d \<Rightarrow> digits (10 * acc + d) True cs
      | None \<Rightarrow> (if c = CHR ''_'' \<and> after_digit then digits acc False cs else None))"

definition py_int :: "string \<Rightarrow> exn + int" where
  "py_int s =
     (case strip s of
        [] \<Rightarrow> Inl ValueError
      | c # cs \<Rightarrow>
          (if c = CHR ''-'' then (case digits 0 False cs of None \<Rightarrow> Inl ValueError | Some n \<Rightarrow> Inr (- n))
           else if c = CHR ''+'' then (case digits 0 False cs of None \<Rightarrow> Inl ValueError | Some n \<Rightarrow> Inr n)
           else (case digits 0 False (c # cs) of None \<Rightarrow> Inl ValueError | Some n \<Rightarrow> Inr n)))"

fun str_nat :: "nat \<Rightarrow> string" where
  "str_nat n =
     (if n < 10 then [''0123456789'' ! n]
      else str_nat (n div 10) @ [''0123456789'' ! (n mod 10)])"

declare str_nat.simps [simp del]

definition str_int :: "int \<Rightarrow> string" where
  "str_int i = (if i < 0 then CHR ''-'' # str_nat (nat (- i)) else str_nat (nat i))"

section \<open>Page ranges\<close>

text \<open>
  \<^verbatim>\<open>start, end = map(int, part.split('-'))\<close>: the pieces are converted in order, and
  anything but exactly two of them makes the unpacking raise \<^verbatim>\<open>ValueError\<close>.
\<close>

fun unpack_two :: "string list \<Rightarrow> exn + (int \<times> int)" where
  "unpack_two [a, b] =
     (case py_int a of
        Inl e \<Rightarrow> Inl e
      | Inr start \<Rightarrow> (case py_int b of Inl e \<Rightarrow> Inl e | Inr end \<Rightarrow> Inr (start, end)))"
| "unpack_two _ = Inl ValueError"

text \<open>
  One comma-separated part of a range string, as both \<^verbatim>\<open>split_pdf\<close> and
  \<^verbatim>\<open>rotate_pdf\<close> read it: the zero-based indices it contributes.
\<close>

definition parse_part :: "nat \<Rightarrow> string \<Rightarrow> exn + int list" where
  "parse_part total_pages part =
     (if CHR ''-'' \<in> set part then
        (case unpack_two (split_on (CHR ''-'') part) of
           Inl e \<Rightarrow> Inl e
         | Inr (start, end) \<Rightarrow> Inr (range_list (start - 1) (min end (int total_pages))))
      else (case py_int part of Inl e \<Rightarrow> Inl e | Inr n \<Rightarrow> Inr [n - 1]))"

text \<open>The loop over the parts; it stops at the first part that raises.\<close>

fun parse_parts :: "nat \<Rightarrow> string list \<Rightarrow> int list \<Rightarrow> exn + int list" where
  "parse_parts total_pages [] page_nums = Inr page_nums"
| "parse_parts total_pages (part # parts) page_nums =
     (case parse_part total_pages part of
        Inl e \<Rightarrow> Inl e
      | Inr ns \<Rightarrow> parse_parts total_pages parts (page_nums @ ns))"

text \<open>\<^verbatim>\<open>split_pdf\<close>, lines 126 to 137: the list \<^verbatim>\<open>page_nums\<close>.\<close>

definition split_page_nums :: "string \<Rightarrow> nat \<Rightarrow> exn + int list" where
  "split_page_nums pages total_pages =
     (if pages \<noteq> [] then parse_parts total_pages (split_on (CHR '','') pages) []
      else Inr (range_list 0 (int total_pages)))"

text \<open>\<^verbatim>\<open>rotate_pdf\<close>, lines 245 to 255: the set \<^verbatim>\<open>pages_to_rotate\<close>.\<close>

definition rotate_pages_to_rotate :: "string \<Rightarrow> nat \<Rightarrow> exn + int set" where
  "rotate_pages_to_rotate pages total_pages =
     (if lower pages = ''all'' then Inr (set (range_list 0 (int total_pages)))
      else (case parse_parts total_pages (split_on (CHR '','') pages) [] of
              Inl e \<Rightarrow> Inl e
            | Inr ns \<Rightarrow> Inr (set ns)))"

section \<open>Documents, files and the server's state\<close>

text \<open>
  The document and image libraries are outside the repository. A page is what the handlers
  can do to it: rotate it and merge an overlay onto it. An overlay is the list of canvas
  operations that drew it. Coordinates are in points; \<^verbatim>\<open>letter\<close> is 612 by 792.
\<close>

datatype canvas_op =
    SetFont string nat
  | SetFillColorRGB nat nat nat
  | DrawCentredString int int string

record page =
  body :: string
  rotation :: int
  merged :: "canvas_op list list"

text \<open>
  A document is its pages and, when it is encrypted, the passwords that open it.
\<close>

record pdf =
  doc_pages :: "page list"
  doc_encryption :: "string list option"

datatype image = ImageNew string "nat \<times> nat" string

text \<open>
  The bytes of a file are represented by what the libraries make of them: something
  \<^verbatim>\<open>PdfReader\<close> cannot read, a document, or an image saved in a format.
\<close>

datatype content =
    Unreadable
  | PdfFile pdf
  | ImageFile string image

record upload =
  filename :: string
  data :: content

datatype zone = UPLOAD_DIR | OUTPUT_DIR

type_synonym path = "zone \<times> string"

text \<open>
  The state of the server: the files of the two directories, the sleeping deletion tasks
  with the time each wakes up, the clock, and the values \<^verbatim>\<open>uuid.uuid4()\<close> returns
  (\<open>rand s n\<close> is the hexadecimal form of the \<open>n\<close>-th one drawn).
\<close>

record server =
  fs :: "path \<Rightarrow> content option"
  tasks :: "(nat \<times> path) list"
  now :: nat
  rand :: "nat \<Rightarrow> string"
  drawn :: nat

record response =
  resp_path :: path
  resp_filename :: string
  media_type :: string

definition uuid4 :: "server \<Rightarrow> string \<times> server" where
  "uuid4 s = (rand s (drawn s), s\<lparr>drawn := Suc (drawn s)\<rparr>)"

text \<open>\<^verbatim>\<open>str(u)\<close> of a UUID: its hexadecimal digits in groups of 8, 4, 4, 4 and 12.\<close>

definition uuid_str :: "string \<Rightarrow> string" where
  "uuid_str h =
     take 8 h @ ''-'' @ take 4 (drop 8 h) @ ''-'' @ take 4 (drop 12 h) @ ''-''
       @ take 4 (drop 16 h) @ ''-'' @ drop 20 h"

text \<open>
  Writing a file creates or replaces it. Storage failures (a full disk, a missing
  directory, an upload whose name has a path separator in it) are not modelled: a write
  always succeeds.
\<close>

definition write_file :: "path \<Rightarrow> content \<Rightarrow> server \<Rightarrow> server" where
  "write_file p c s = s\<lparr>fs := (fs s)(p \<mapsto> c)\<rparr>"

definition exists :: "path \<Rightarrow> server \<Rightarrow> bool" where
  "exists p s = (fs s p \<noteq> None)"

definition unlink :: "path \<Rightarrow> server \<Rightarrow> exn + server" where
  "unlink p s = (if fs s p = None then Inl FileNotFoundError else Inr (s\<lparr>fs := (fs s)(p := None)\<rparr>))"

subsection \<open>Deferred deletion\<close>

text \<open>
  \<^verbatim>\<open>cleanup_file\<close> creates a task that sleeps for \<open>delay\<close> seconds; the task is
  recorded with the time it wakes up. The handlers call it with the default delay.
\<close>

definition cleanup_file :: "path \<Rightarrow> nat \<Rightarrow> server \<Rightarrow> server" where
  "cleanup_file filepath delay s = s\<lparr>tasks := tasks s @ [(now s + delay, filepath)]\<rparr>"

definition default_delay :: nat where
  "default_delay = 300"

text \<open>What the task does when it wakes up.\<close>

definition delete_after_delay :: "path \<Rightarrow> server \<Rightarrow> exn + server" where
  "delete_after_delay filepath s = (if exists filepath s then unlink filepath s else Inr s)"

text \<open>
  The event loop: when the clock advances, the tasks whose time has come run one after
  the other; an exception raised by a task ends that task only and is collected.
\<close>

fun run_tasks :: "path list \<Rightarrow> server \<Rightarrow> exn list \<times> server" where
  "run_tasks [] s = ([], s)"
| "run_tasks (p # ps) s =
     (case delete_after_delay p s of
        Inl e \<Rightarrow> (case run_tasks ps s of (es, s') \<Rightarrow> (e # es, s'))
      | Inr s1 \<Rightarrow> run_tasks ps s1)"

definition advance :: "nat \<Rightarrow> server \<Rightarrow> exn list \<times> server" where
  "advance d s =
     (let t = now s + d;
          due = filter (\<lambda>(wake, p). wake \<le> t) (tasks s);
          waiting = filter (\<lambda>(wake, p). \<not> wake \<le> t) (tasks s)
      in run_tasks (map snd due) (s\<lparr>now := t, tasks := waiting\<rparr>))"

text \<open>
  What can happen to a scheduled file while its task sleeps: time passes, or somebody
  removes a file. A removal of a file that is not there fails for the one who asked and
  changes nothing.
\<close>

datatype event = Tick nat | Remove path

fun run_events :: "event list \<Rightarrow> server \<Rightarrow> exn list \<times> server" where
  "run_events [] s = ([], s)"
| "run_events (Tick d # evs) s =
     (case advance d s of
        (es, s1) \<Rightarrow> (case run_events evs s1 of (es', s2) \<Rightarrow> (es @ es', s2)))"
| "run_events (Remove p # evs) s =
     (case unlink p s of
        Inl e \<Rightarrow> run_events evs s
      | Inr s1 \<Rightarrow> run_events evs s1)"

fun elapsed :: "event list \<Rightarrow> nat" where
  "elapsed [] = 0"
| "elapsed (Tick d # evs) = d + elapsed evs"
| "elapsed (Remove p # evs) = elapsed evs"

subsection \<open>Reading and writing documents\<close>

record reader =
  r_doc :: pdf
  r_decrypted :: bool

text \<open>
  \<^verbatim>\<open>PdfReader(path)\<close> raises on a missing or unreadable file. On an encrypted
  document it tries the empty password by itself.
\<close>

definition PdfReader :: "path \<Rightarrow> server \<Rightarrow> exn + reader" where
  "PdfReader p s =
     (case fs s p of
        None \<Rightarrow> Inl FileNotFoundError
      | Some (PdfFile d) \<Rightarrow>
          Inr \<lparr>r_doc = d,
               r_decrypted = (case doc_encryption d of None \<Rightarrow> False | Some pws \<Rightarrow> [] \<in> set pws)\<rparr>
      | Some _ \<Rightarrow> Inl PdfReadError)"

definition is_encrypted :: "reader \<Rightarrow> bool" where
  "is_encrypted r = (doc_encryption (r_doc r) \<noteq> None)"

text \<open>\<^verbatim>\<open>reader.decrypt(password)\<close>: whether the password opened the document.\<close>

definition decrypt :: "reader \<Rightarrow> string \<Rightarrow> bool \<times> reader" where
  "decrypt r password =
     (case doc_encryption (r_doc r) of
        None \<Rightarrow> (False, r)
      | Some pws \<Rightarrow> (if password \<in> set pws then (True, r\<lparr>r_decrypted := True\<rparr>) else (False, r)))"

text \<open>\<^verbatim>\<open>reader.pages\<close> raises on an encrypted document that has not been opened.\<close>

definition reader_pages :: "reader \<Rightarrow> exn + page list" where
  "reader_pages r =
     (if is_encrypted r \<and> \<not> r_decrypted r then Inl FileNotDecryptedError
      else Inr (doc_pages (r_doc r)))"

definition rotate :: "page \<Rightarrow> int \<Rightarrow> page" where
  "rotate p angle = p\<lparr>rotation := rotation p + angle\<rparr>"

definition merge_page :: "page \<Rightarrow> canvas_op list \<Rightarrow> page" where
  "merge_page p overlay = p\<lparr>merged := merged p @ [overlay]\<rparr>"

text \<open>
  The lines every handler starts with: the upload is written to the upload directory
  under a fresh UUID followed by its own name.
\<close>

definition save_upload :: "upload \<Rightarrow> server \<Rightarrow> path \<times> server" where
  "save_upload file s =
     (case uuid4 s of
        (u, s1) \<Rightarrow>
          (let temp_path = (UPLOAD_DIR, uuid_str u @ ''_'' @ filename file)
           in (temp_path, write_file temp_path (data file) s1)))"

definition is_pdf_name :: "upload \<Rightarrow> bool" where
  "is_pdf_name file = endswith (lower (filename file)) ''.pdf''"

text \<open>
  What the framework answers: the status of a returned response is 200, a raised
  \<^verbatim>\<open>HTTPException\<close> carries its own, anything else is a 500.
\<close>

fun status_code :: "exn + response \<Rightarrow> nat" where
  "status_code (Inr r) = 200"
| "status_code (Inl (HTTPException code d)) = code"
| "status_code (Inl e) = 500"

text \<open>\<^verbatim>\<open>except Exception as e: raise HTTPException(status_code=500, detail=str(e))\<close>\<close>

definition except_Exception :: "(exn + response) \<times> server \<Rightarrow> (exn + response) \<times> server" where
  "except_Exception r =
     (case r of
        (Inl e, s) \<Rightarrow> (Inl (HTTPException 500 (StrOf e)), s)
      | (Inr resp, s) \<Rightarrow> (Inr resp, s))"

section \<open>The handlers\<close>

text \<open>
  A handler takes the request's fields and the server's state and gives back what it
  returns or raises, with the state it leaves. The state is kept on an exception too:
  what was written before the exception stays written.
\<close>

definition file_response :: "path \<Rightarrow> string \<Rightarrow> string \<Rightarrow> response" where
  "file_response p name mt = \<lparr>resp_path = p, resp_filename = name, media_type = mt\<rparr>"

definition plain_pdf :: "page list \<Rightarrow> content" where
  "plain_pdf pgs = PdfFile \<lparr>doc_pages = pgs, doc_encryption = None\<rparr>"

subsection \<open>\<^verbatim>\<open>merge_pdfs\<close>\<close>

text \<open>\<^verbatim>\<open>merger.append(str(temp_path))\<close> reads the file and gives its pages.\<close>

definition merger_append :: "path \<Rightarrow> server \<Rightarrow> exn + page list" where
  "merger_append p s = (case PdfReader p s of Inl e \<Rightarrow> Inl e | Inr r \<Rightarrow> reader_pages r)"

text \<open>The loop of lines 77 to 86, with the merger's pages and \<^verbatim>\<open>temp_files\<close>.\<close>

fun merge_loop ::
  "upload list \<Rightarrow> page list \<Rightarrow> path list \<Rightarrow> server \<Rightarrow> (exn + page list \<times> path list) \<times> server"
where
  "merge_loop [] merger temp_files s = (Inr (merger, temp_files), s)"
| "merge_loop (file # files) merger temp_files s =
     (if \<not> is_pdf_name file then
        (Inl (HTTPException 400 (Msg (''File '' @ filename file @ '' is not a PDF''))), s)
      else
        (case save_upload file s of
           (temp_path, s1) \<Rightarrow>
             (case merger_append temp_path s1 of
                Inl e \<Rightarrow> (Inl e, s1)
              | Inr pgs \<Rightarrow> merge_loop files (merger @ pgs) (temp_files @ [temp_path]) s1)))"

text \<open>
  The paths line 81 gives to a list of uploads when the first UUID drawn is the
  \<open>k\<close>-th one of \<open>rnd\<close>: the files the loop stages when it runs to its end.
\<close>

fun staged_paths :: "upload list \<Rightarrow> (nat \<Rightarrow> string) \<Rightarrow> nat \<Rightarrow> path list" where
  "staged_paths [] rnd k = []"
| "staged_paths (file # files) rnd k =
     (UPLOAD_DIR, uuid_str (rnd k) @ ''_'' @ filename file) # staged_paths files rnd (Suc k)"

text \<open>The loop of lines 94 and 95: it stops at the first \<^verbatim>\<open>unlink\<close> that raises.\<close>

fun unlink_all :: "path list \<Rightarrow> server \<Rightarrow> exn option \<times> server" where
  "unlink_all [] s = (None, s)"
| "unlink_all (p # ps) s =
     (case unlink p s of
        Inl e \<Rightarrow> (Some e, s)
      | Inr s1 \<Rightarrow> unlink_all ps s1)"

definition merge_body :: "upload list \<Rightarrow> server \<Rightarrow> (exn + response) \<times> server" where
  "merge_body files s =
     (case merge_loop files [] [] s of
        (Inl e, s1) \<Rightarrow> (Inl e, s1)
      | (Inr (merger, temp_files), s1) \<Rightarrow>
          (case uuid4 s1 of
             (u, s2) \<Rightarrow>
               (let output_filename = ''merged_'' @ take 8 u @ ''.pdf'';
                    output_path = (OUTPUT_DIR, output_filename);
                    s3 = write_file output_path (plain_pdf merger) s2
                in (case unlink_all temp_files s3 of
                      (Some e, s4) \<Rightarrow> (Inl e, s4)
                    | (None, s4) \<Rightarrow>
                        (Inr (file_response output_path output_filename ''application/pdf''),
                         cleanup_file output_path default_delay s4)))))"

definition merge_pdfs :: "upload list \<Rightarrow> server \<Rightarrow> (exn + response) \<times> server" where
  "merge_pdfs files s =
     (if length files < 2 then
        (Inl (HTTPException 400 (Msg ''At least 2 PDF files required'')), s)
      else except_Exception (merge_body files s))"

subsection \<open>\<^verbatim>\<open>split_pdf\<close>\<close>

text \<open>
  The loop of lines 140 to 152: one single-page file for each number of
  \<^verbatim>\<open>page_nums\<close> that is a page of the document.
\<close>

fun split_write ::
  "page list \<Rightarrow> int list \<Rightarrow> path list \<Rightarrow> server \<Rightarrow> path list \<times> server"
where
  "split_write pgs [] output_files s = (output_files, s)"
| "split_write pgs (page_num # page_nums) output_files s =
     (if 0 \<le> page_num \<and> page_num < int (length pgs) then
        (case uuid4 s of
           (u, s1) \<Rightarrow>
             (let output_filename = ''page_'' @ str_int (page_num + 1) @ ''_'' @ take 6 u @ ''.pdf'';
                  output_path = (OUTPUT_DIR, output_filename);
                  s2 = write_file output_path (plain_pdf [pgs ! nat page_num]) s1
              in split_write pgs page_nums (output_files @ [output_path])
                   (cleanup_file output_path default_delay s2)))
      else split_write pgs page_nums output_files s)"

definition split_body :: "upload \<Rightarrow> string \<Rightarrow> server \<Rightarrow> (exn + response) \<times> server" where
  "split_body file pages s =
     (case save_upload file s of
        (temp_path, s1) \<Rightarrow>
          (case PdfReader temp_path s1 of
             Inl e \<Rightarrow> (Inl e, s1)
           | Inr reader \<Rightarrow>
               (case reader_pages reader of
                  Inl e \<Rightarrow> (Inl e, s1)
                | Inr pgs \<Rightarrow>
                    (case split_page_nums pages (length pgs) of
                       Inl e \<Rightarrow> (Inl e, s1)
                     | Inr page_nums \<Rightarrow>
                         (case split_write pgs page_nums [] s1 of
                            (output_files, s2) \<Rightarrow>
                              (case unlink temp_path s2 of
                                 Inl e \<Rightarrow> (Inl e, s2)
                               | Inr s3 \<Rightarrow>
                                   (case output_files of
                                      first # others \<Rightarrow>
                                        (Inr (file_response first (''split_'' @ filename file)
                                                ''application/pdf''), s3)
                                    | [] \<Rightarrow>
                                        (Inl (HTTPException 400 (Msg ''No valid pages to split'')),
                                         s3))))))))"

definition split_pdf :: "upload \<Rightarrow> string \<Rightarrow> server \<Rightarrow> (exn + response) \<times> server" where
  "split_pdf file pages s =
     (if \<not> is_pdf_name file then (Inl (HTTPException 400 (Msg ''File must be a PDF'')), s)
      else except_Exception (split_body file pages s))"

subsection \<open>\<^verbatim>\<open>rotate_pdf\<close>\<close>

text \<open>The loop of lines 257 to 260.\<close>

definition rotate_pages :: "int set \<Rightarrow> int \<Rightarrow> page list \<Rightarrow> page list" where
  "rotate_pages pages_to_rotate angle pgs =
     map (\<lambda>(i, p). if int i \<in> pages_to_rotate then rotate p angle else p) (enumerate 0 pgs)"

text \<open>
  The end of a handler that produces one document: the output is written under a name
  made of a prefix and eight digits of a fresh UUID, the upload is removed, the deletion
  of the output is scheduled.
\<close>

definition write_output ::
  "string \<Rightarrow> content \<Rightarrow> path \<Rightarrow> server \<Rightarrow> (exn + response) \<times> server"
where
  "write_output prefix c temp_path s =
     (case uuid4 s of
        (u, s1) \<Rightarrow>
          (let output_filename = prefix @ take 8 u @ ''.pdf'';
               output_path = (OUTPUT_DIR, output_filename);
               s2 = write_file output_path c s1
           in (case unlink temp_path s2 of
                 Inl e \<Rightarrow> (Inl e, s2)
               | Inr s3 \<Rightarrow>
                   (Inr (file_response output_path output_filename ''application/pdf''),
                    cleanup_file output_path default_delay s3))))"

definition rotate_body :: "upload \<Rightarrow> int \<Rightarrow> string \<Rightarrow> server \<Rightarrow> (exn + response) \<times> server" where
  "rotate_body file angle pages s =
     (case save_upload file s of
        (temp_path, s1) \<Rightarrow>
          (case PdfReader temp_path s1 of
             Inl e \<Rightarrow> (Inl e, s1)
           | Inr reader \<Rightarrow>
               (case reader_pages reader of
                  Inl e \<Rightarrow> (Inl e, s1)
                | Inr pgs \<Rightarrow>
                    (case rotate_pages_to_rotate pages (length pgs) of
                       Inl e \<Rightarrow> (Inl e, s1)
                     | Inr pages_to_rotate \<Rightarrow>
                         write_output ''rotated_''
                           (plain_pdf (rotate_pages pages_to_rotate angle pgs)) temp_path s1))))"

definition rotate_pdf :: "upload \<Rightarrow> int \<Rightarrow> string \<Rightarrow> server \<Rightarrow> (exn + response) \<times> server" where
  "rotate_pdf file angle pages s =
     (if \<not> is_pdf_name file then (Inl (HTTPException 400 (Msg ''File must be a PDF'')), s)
      else if angle \<notin> set [90, 180, 270, - 90, - 180, - 270] then
        (Inl (HTTPException 400 (Msg ''Angle must be 90, 180, or 270 degrees'')), s)
      else except_Exception (rotate_body file angle pages s))"

subsection \<open>\<^verbatim>\<open>pdf_to_images\<close>\<close>

text \<open>
  \<^verbatim>\<open>img.save(path, format.upper())\<close>: the image library looks the format up in
  its table of writers before it opens the file, and raises when it is not there. The
  table \<open>SAVE\<close> belongs to the library and is a parameter here. With an empty format
  the library goes by the extension of the path, which is empty too, and raises.
\<close>

definition image_save ::
  "string list \<Rightarrow> image \<Rightarrow> path \<Rightarrow> string \<Rightarrow> server \<Rightarrow> exn + server"
where
  "image_save SAVE img p fmt s =
     (if fmt = [] then Inl ValueError
      else if fmt \<notin> set SAVE then Inl KeyError
      else Inr (write_file p (ImageFile fmt img) s))"

definition pdf_to_images_body ::
  "string list \<Rightarrow> upload \<Rightarrow> string \<Rightarrow> int \<Rightarrow> server \<Rightarrow> (exn + response) \<times> server"
where
  "pdf_to_images_body SAVE file format dpi s =
     (case save_upload file s of
        (temp_path, s1) \<Rightarrow>
          (case PdfReader temp_path s1 of
             Inl e \<Rightarrow> (Inl e, s1)
           | Inr reader \<Rightarrow>
               (case reader_pages reader of
                  Inl e \<Rightarrow> (Inl e, s1)
                | Inr [] \<Rightarrow> (Inl IndexError, s1)
                | Inr (first_page # rest) \<Rightarrow>
                    (let img = ImageNew ''RGB'' (612, 792) ''white'';
                         output_filename = ''page_1.'' @ format
                     in (case uuid4 s1 of
                           (u, s2) \<Rightarrow>
                             (let output_path = (OUTPUT_DIR, take 8 u @ ''_'' @ output_filename)
                              in (case image_save SAVE img output_path (upper format) s2 of
                                    Inl e \<Rightarrow> (Inl e, s2)
                                  | Inr s3 \<Rightarrow>
                                      (case unlink temp_path s3 of
                                         Inl e \<Rightarrow> (Inl e, s3)
                                       | Inr s4 \<Rightarrow>
                                           (Inr (file_response output_path output_filename
                                                   (''image/'' @ format)),
                                            cleanup_file output_path default_delay s4)))))))))"

definition pdf_to_images ::
  "string list \<Rightarrow> upload \<Rightarrow> string \<Rightarrow> int \<Rightarrow> server \<Rightarrow> (exn + response) \<times> server"
where
  "pdf_to_images SAVE file format dpi s =
     (if \<not> is_pdf_name file then (Inl (HTTPException 400 (Msg ''File must be a PDF'')), s)
      else except_Exception (pdf_to_images_body SAVE file format dpi s))"

subsection \<open>\<^verbatim>\<open>protect_pdf\<close>\<close>

definition protect_body :: "upload \<Rightarrow> string \<Rightarrow> server \<Rightarrow> (exn + response) \<times> server" where
  "protect_body file password s =
     (case save_upload file s of
        (temp_path, s1) \<Rightarrow>
          (case PdfReader temp_path s1 of
             Inl e \<Rightarrow> (Inl e, s1)
           | Inr reader \<Rightarrow>
               (case reader_pages reader of
                  Inl e \<Rightarrow> (Inl e, s1)
                | Inr pgs \<Rightarrow>
                    write_output ''protected_''
                      (PdfFile \<lparr>doc_pages = pgs, doc_encryption = Some [password]\<rparr>)
                      temp_path s1)))"

definition protect_pdf :: "upload \<Rightarrow> string \<Rightarrow> server \<Rightarrow> (exn + response) \<times> server" where
  "protect_pdf file password s =
     (if \<not> is_pdf_name file then (Inl (HTTPException 400 (Msg ''File must be a PDF'')), s)
      else if password = [] \<or> length password < 4 then
        (Inl (HTTPException 400 (Msg ''Password must be at least 4 characters'')), s)
      else except_Exception (protect_body file password s))"

subsection \<open>\<^verbatim>\<open>unlock_pdf\<close>\<close>

text \<open>Lines 449 to 451: the password is asked for on an encrypted document only.\<close>

definition check_password :: "reader \<Rightarrow> string \<Rightarrow> exn + reader" where
  "check_password reader password =
     (if is_encrypted reader then
        (case decrypt reader password of
           (opened, reader1) \<Rightarrow>
             (if \<not> opened then Inl (HTTPException 400 (Msg ''Incorrect password''))
              else Inr reader1))
      else Inr reader)"

definition unlock_body :: "upload \<Rightarrow> string \<Rightarrow> server \<Rightarrow> (exn + response) \<times> server" where
  "unlock_body file password s =
     (case save_upload file s of
        (temp_path, s1) \<Rightarrow>
          (case PdfReader temp_path s1 of
             Inl e \<Rightarrow> (Inl e, s1)
           | Inr reader \<Rightarrow>
               (case check_password reader password of
                  Inl e \<Rightarrow> (Inl e, s1)
                | Inr reader1 \<Rightarrow>
                    (case reader_pages reader1 of
                       Inl e \<Rightarrow> (Inl e, s1)
                     | Inr pgs \<Rightarrow> write_output ''unlocked_'' (plain_pdf pgs) temp_path s1))))"

text \<open>
  \<^verbatim>\<open>except HTTPException: raise\<close> comes first in this handler: an
  \<^verbatim>\<open>HTTPException\<close> raised in the body keeps its status.
\<close>

definition unlock_pdf :: "upload \<Rightarrow> string \<Rightarrow> server \<Rightarrow> (exn + response) \<times> server" where
  "unlock_pdf file password s =
     (if \<not> is_pdf_name file then (Inl (HTTPException 400 (Msg ''File must be a PDF'')), s)
      else (case unlock_body file password s of
              (Inl (HTTPException code d), s1) \<Rightarrow> (Inl (HTTPException code d), s1)
            | r \<Rightarrow> except_Exception r))"

subsection \<open>\<^verbatim>\<open>add_page_numbers\<close>\<close>

text \<open>The overlay drawn for the page at index \<open>i\<close>, lines 561 to 581.\<close>

definition page_number_overlay :: "string \<Rightarrow> int \<Rightarrow> nat \<Rightarrow> canvas_op list" where
  "page_number_overlay position start_from i =
     (let page_number = start_from + int i;
          y = (if contains position ''bottom'' then 30 else 792 - 30);
          x = (if contains position ''center'' then 612 div 2
               else if contains position ''right'' then 612 - 50
               else 50)
      in [SetFont ''Helvetica'' 10, SetFillColorRGB 0 0 0,
          DrawCentredString x y (str_int page_number)])"

definition number_pages :: "string \<Rightarrow> int \<Rightarrow> page list \<Rightarrow> page list" where
  "number_pages position start_from pgs =
     map (\<lambda>(i, p). merge_page p (page_number_overlay position start_from i)) (enumerate 0 pgs)"

definition add_page_numbers_body ::
  "upload \<Rightarrow> string \<Rightarrow> int \<Rightarrow> server \<Rightarrow> (exn + response) \<times> server"
where
  "add_page_numbers_body file position start_from s =
     (case save_upload file s of
        (temp_path, s1) \<Rightarrow>
          (case PdfReader temp_path s1 of
             Inl e \<Rightarrow> (Inl e, s1)
           | Inr reader \<Rightarrow>
               (case reader_pages reader of
                  Inl e \<Rightarrow> (Inl e, s1)
                | Inr pgs \<Rightarrow>
                    write_output ''numbered_''
                      (plain_pdf (number_pages position start_from pgs)) temp_path s1)))"

definition add_page_numbers ::
  "upload \<Rightarrow> string \<Rightarrow> int \<Rightarrow> server \<Rightarrow> (exn + response) \<times> server"
where
  "add_page_numbers file position start_from s =
     (if \<not> is_pdf_name file then (Inl (HTTPException 400 (Msg ''File must be a PDF'')), s)
      else except_Exception (add_page_numbers_body file position start_from s))"

subsection \<open>A server to run the handlers on\<close>

text \<open>
  Both directories empty, no task, the clock at zero, and UUIDs that differ in their
  first digits: the \<open>n\<close>-th one is the decimal \<open>n\<close> followed by zeros, 32 digits in all.
\<close>

definition sample_uuid :: "nat \<Rightarrow> string" where
  "sample_uuid n = take 32 (str_nat n @ ''00000000000000000000000000000000'')"

definition fresh_server :: server where
  "fresh_server = \<lparr>fs = (\<lambda>p. None), tasks = [], now = 0, rand = sample_uuid, drawn = 0\<rparr>"

definition one_page :: "string \<Rightarrow> page" where
  "one_page b = \<lparr>body = b, rotation = 0, merged = []\<rparr>"

definition sample_pdf :: "string list \<Rightarrow> content" where
  "sample_pdf bodies = plain_pdf (map one_page bodies)"

definition sample_upload :: "string \<Rightarrow> string list \<Rightarrow> upload" where
  "sample_upload name bodies = \<lparr>filename = name, data = sample_pdf bodies\<rparr>"

definition locked_pdf :: "string list \<Rightarrow> string \<Rightarrow> pdf" where
  "locked_pdf bodies pw = \<lparr>doc_pages = map one_page bodies, doc_encryption = Some [pw]\<rparr>"

definition artifact :: path where
  "artifact = (OUTPUT_DIR, ''merged_0a1b2c3d.pdf'')"

section \<open>Facts shared by the handlers\<close>

lemmas py_eval =
  endswith_def lower_def lower_char_def upper_def upper_char_def is_pdf_name_def
  py_int_def strip_def is_space_def digit_val_def range_list_def upto.simps
  parse_part_def split_page_nums_def rotate_pages_to_rotate_def str_int_def str_nat.simps

lemmas io_eval =
  uuid4_def uuid_str_def write_file_def exists_def unlink_def cleanup_file_def
  default_delay_def PdfReader_def is_encrypted_def decrypt_def reader_pages_def
  save_upload_def except_Exception_def file_response_def plain_pdf_def merger_append_def
  write_output_def fresh_server_def sample_pdf_def one_page_def sample_uuid_def
  sample_upload_def locked_pdf_def Let_def

lemma save_upload_state:
  "save_upload file s = (p, s1) \<Longrightarrow>
     fst p = UPLOAD_DIR \<and> fs s1 = (fs s)(p \<mapsto> data file) \<and>
     tasks s1 = tasks s \<and> now s1 = now s"
  by (auto simp: save_upload_def uuid4_def write_file_def Let_def)



lemma save_upload_path:
  "save_upload file s = (p, s1) \<Longrightarrow>
     p = (UPLOAD_DIR, uuid_str (rand s (drawn s)) @ ''_'' @ filename file) \<and>
     rand s1 = rand s \<and> drawn s1 = Suc (drawn s)"
  by (auto simp: save_upload_def uuid4_def write_file_def Let_def)

lemma merge_loop_success:
  "merge_loop files merger temp s = (Inr (m, temp'), s1) \<Longrightarrow>
     temp' = temp @ staged_paths files (rand s) (drawn s) \<and> now s1 = now s \<and> tasks s1 = tasks s"
proof (induction files arbitrary: merger temp s)
  case Nil
  then show ?case by simp
next
  case (Cons x xs)
  obtain p s0 where su: "save_upload x s = (p, s0)" by (cases "save_upload x s")
  from Cons.prems su obtain pgs where
    rec: "merge_loop xs (merger @ pgs) (temp @ [p]) s0 = (Inr (m, temp'), s1)"
    by (auto split: if_splits sum.splits)
  from Cons.IH[OF rec] save_upload_path[OF su] save_upload_state[OF su]
  show ?case by simp
qed

lemma unlink_all_success:
  "unlink_all ps s = (None, s') \<Longrightarrow>
     fs s' = (\<lambda>q. if q \<in> set ps then None else fs s q) \<and> now s' = now s \<and> tasks s' = tasks s"
proof (induction ps arbitrary: s)
  case Nil
  then show ?case by simp
next
  case (Cons p ps)
  from Cons.prems obtain s1 where u: "unlink p s = Inr s1" and rec: "unlink_all ps s1 = (None, s')"
    by (auto split: sum.splits)
  from u have "fs s1 = (fs s)(p := None)" "now s1 = now s" "tasks s1 = tasks s"
    by (auto simp: unlink_def split: if_splits)
  with Cons.IH[OF rec] show ?case by (auto simp: fun_eq_iff)
qed

lemma merge_pdfs_success:
  assumes "merge_pdfs files s = (Inr r, s')"
  shows "(\<forall>p \<in> set (staged_paths files (rand s) (drawn s)). fs s' p = None) \<and>
         (now s + 300, resp_path r) \<in> set (tasks s') \<and> now s' = now s"
proof -
  from assms have body: "merge_body files s = (Inr r, s')"
    by (auto simp: merge_pdfs_def except_Exception_def split: if_splits prod.splits sum.splits)
  then obtain m temp s1 where loop: "merge_loop files [] [] s = (Inr (m, temp), s1)"
    by (auto simp: merge_body_def split: prod.splits sum.splits)
  from merge_loop_success[OF loop]
  have temp: "temp = staged_paths files (rand s) (drawn s)" and n1: "now s1 = now s" by auto
  obtain u s2 where uu: "uuid4 s1 = (u, s2)" by (cases "uuid4 s1")
  let ?out = "(OUTPUT_DIR, ''merged_'' @ take 8 u @ ''.pdf'')"
  let ?s3 = "write_file ?out (plain_pdf m) s2"
  from body loop uu obtain s4 where ul: "unlink_all temp ?s3 = (None, s4)"
    and r: "r = file_response ?out (''merged_'' @ take 8 u @ ''.pdf'') ''application/pdf''"
    and s': "s' = cleanup_file ?out default_delay s4"
    by (auto simp: merge_body_def Let_def split: prod.splits option.splits)
  from unlink_all_success[OF ul] uu n1
  have "\<forall>p \<in> set temp. fs s4 p = None" "now s4 = now s"
    by (auto simp: uuid4_def write_file_def)
  then show ?thesis using temp r s'
    by (simp add: cleanup_file_def default_delay_def file_response_def)
qed

lemma split_write_frame:
  "split_write pgs ns outs s = (outs', s') \<Longrightarrow>
     now s' = now s \<and> (\<forall>name. fs s' (UPLOAD_DIR, name) = fs s (UPLOAD_DIR, name)) \<and>
     (\<forall>p \<in> set outs'. p \<in> set outs \<or> (now s + 300, p) \<in> set (tasks s')) \<and>
     set (tasks s) \<subseteq> set (tasks s')"
proof (induction pgs ns outs s rule: split_write.induct)
  case (1 pgs output_files s)
  then show ?case by simp
next
  case (2 pgs page_num page_nums output_files s)
  show ?case
  proof (cases "0 \<le> page_num \<and> page_num < int (length pgs)")
    case False
    with 2 show ?thesis by simp
  next
    case True
    obtain u s1 where uu: "uuid4 s = (u, s1)" by (cases "uuid4 s")
    define out where "out = (OUTPUT_DIR, ''page_'' @ str_int (page_num + 1) @ ''_'' @ take 6 u @ ''.pdf'')"
    define s3 where "s3 = cleanup_file out default_delay (write_file out (plain_pdf [pgs ! nat page_num]) s1)"
    from 2(3) True uu have rec: "split_write pgs page_nums (output_files @ [out]) s3 = (outs', s')"
      by (simp add: Let_def out_def s3_def)
    have s3: "now s3 = now s" "\<forall>name. fs s3 (UPLOAD_DIR, name) = fs s (UPLOAD_DIR, name)"
      "tasks s3 = tasks s @ [(now s + 300, out)]"
      using uu by (auto simp: s3_def out_def uuid4_def cleanup_file_def write_file_def default_delay_def)
    from 2(1)[OF True uu[symmetric] refl refl refl, folded out_def, folded s3_def, OF rec] s3
    show ?thesis by auto
  qed
qed

lemma split_pdf_success:
  assumes "split_pdf file pages s = (Inr r, s')"
  shows "fs s' (fst (save_upload file s)) = None \<and>
         (now s + 300, resp_path r) \<in> set (tasks s') \<and> now s' = now s"
proof -
  from assms have body: "split_body file pages s = (Inr r, s')"
    by (auto simp: split_pdf_def except_Exception_def split: if_splits prod.splits sum.splits)
  obtain p s1 where su: "save_upload file s = (p, s1)" by (cases "save_upload file s")
  from body su obtain pgs page_nums outs s2 first others where
    w: "split_write pgs page_nums [] s1 = (outs, s2)" and u: "unlink p s2 = Inr s'"
    and o: "outs = first # others" and r: "r = file_response first (''split_'' @ filename file) ''application/pdf''"
    by (auto simp: split_body_def split: prod.splits sum.splits list.splits)
  from split_write_frame[OF w] o save_upload_state[OF su]
  have "now s2 = now s" "(now s + 300, first) \<in> set (tasks s2)" by auto
  moreover from u have "fs s' p = None" "now s' = now s2" "tasks s' = tasks s2"
    by (auto simp: unlink_def split: if_splits)
  ultimately show ?thesis using su r by (simp add: file_response_def)
qed

lemma write_output_success:
  assumes "write_output prefix c p s = (Inr r, s')"
  shows "fs s' p = None \<and> (now s + 300, resp_path r) \<in> set (tasks s') \<and> now s' = now s \<and>
         fs s' (resp_path r) = (if resp_path r = p then None else Some c)"
  using assms
  by (auto simp: write_output_def uuid4_def write_file_def unlink_def cleanup_file_def
      default_delay_def file_response_def Let_def split: if_splits)

lemma rotate_pdf_success:
  assumes "rotate_pdf file angle pages s = (Inr r, s')"
  shows "fs s' (fst (save_upload file s)) = None \<and>
         (now s + 300, resp_path r) \<in> set (tasks s') \<and> now s' = now s"
proof -
  obtain p s1 where su: "save_upload file s = (p, s1)" by (cases "save_upload file s")
  from assms have "rotate_body file angle pages s = (Inr r, s')"
    by (auto simp: rotate_pdf_def except_Exception_def split: if_splits prod.splits sum.splits)
  with su obtain c where "write_output ''rotated_'' c p s1 = (Inr r, s')"
    by (auto simp: rotate_body_def split: sum.splits)
  from write_output_success[OF this] save_upload_state[OF su] su show ?thesis by simp
qed

lemma protect_pdf_success:
  assumes "protect_pdf file password s = (Inr r, s')"
  shows "fs s' (fst (save_upload file s)) = None \<and>
         (now s + 300, resp_path r) \<in> set (tasks s') \<and> now s' = now s"
proof -
  obtain p s1 where su: "save_upload file s = (p, s1)" by (cases "save_upload file s")
  from assms have "protect_body file password s = (Inr r, s')"
    by (auto simp: protect_pdf_def except_Exception_def split: if_splits prod.splits sum.splits)
  with su obtain c where "write_output ''protected_'' c p s1 = (Inr r, s')"
    by (auto simp: protect_body_def split: sum.splits)
  from write_output_success[OF this] save_upload_state[OF su] su show ?thesis by simp
qed

lemma unlock_pdf_success:
  assumes "unlock_pdf file password s = (Inr r, s')"
  shows "fs s' (fst (save_upload file s)) = None \<and>
         (now s + 300, resp_path r) \<in> set (tasks s') \<and> now s' = now s"
proof -
  obtain p s1 where su: "save_upload file s = (p, s1)" by (cases "save_upload file s")
  from assms have "unlock_body file password s = (Inr r, s')"
    by (auto simp: unlock_pdf_def except_Exception_def split: if_splits prod.splits sum.splits exn.splits)
  with su obtain c where "write_output ''unlocked_'' c p s1 = (Inr r, s')"
    by (auto simp: unlock_body_def split: sum.splits)
  from write_output_success[OF this] save_upload_state[OF su] su show ?thesis by simp
qed

lemma add_page_numbers_success:
  assumes "add_page_numbers file position start_from s = (Inr r, s')"
  shows "fs s' (fst (save_upload file s)) = None \<and>
         (now s + 300, resp_path r) \<in> set (tasks s') \<and> now s' = now s"
proof -
  obtain p s1 where su: "save_upload file s = (p, s1)" by (cases "save_upload file s")
  from assms have "add_page_numbers_body file position start_from s = (Inr r, s')"
    by (auto simp: add_page_numbers_def except_Exception_def split: if_splits prod.splits sum.splits)
  with su obtain c where "write_output ''numbered_'' c p s1 = (Inr r, s')"
    by (auto simp: add_page_numbers_body_def split: sum.splits)
  from write_output_success[OF this] save_upload_state[OF su] su show ?thesis by simp
qed

lemma pdf_to_images_success:
  assumes "pdf_to_images SAVE file format dpi s = (Inr r, s')"
  shows "fs s' (fst (save_upload file s)) = None \<and>
         (now s + 300, resp_path r) \<in> set (tasks s') \<and> now s' = now s"
proof -
  obtain p s1 where su: "save_upload file s = (p, s1)" by (cases "save_upload file s")
  from assms have body: "pdf_to_images_body SAVE file format dpi s = (Inr r, s')"
    by (auto simp: pdf_to_images_def except_Exception_def split: if_splits prod.splits sum.splits)
  obtain u s2 where uu: "uuid4 s1 = (u, s2)" by (cases "uuid4 s1")
  let ?out = "(OUTPUT_DIR, take 8 u @ ''_'' @ ''page_1.'' @ format)"
  from body su uu obtain s3 s4 where
    sv: "image_save SAVE (ImageNew ''RGB'' (612, 792) ''white'') ?out (upper format) s2 = Inr s3"
    and ul: "unlink p s3 = Inr s4"
    and r: "r = file_response ?out (''page_1.'' @ format) (''image/'' @ format)"
    and s': "s' = cleanup_file ?out default_delay s4"
    by (auto simp: pdf_to_images_body_def Let_def split: sum.splits list.splits)
  from sv uu have "now s3 = now s1"
    by (auto simp: image_save_def uuid4_def write_file_def split: if_splits)
  moreover from ul have "fs s4 p = None" "now s4 = now s3"
    by (auto simp: unlink_def split: if_splits)
  ultimately show ?thesis using su r s' save_upload_state[OF su]
    by (simp add: cleanup_file_def default_delay_def file_response_def)
qed

subsection \<open>The sleeping tasks\<close>

lemma delete_after_delay_result:
  "delete_after_delay p s = Inr (if fs s p = None then s else s\<lparr>fs := (fs s)(p := None)\<rparr>)"
  by (simp add: delete_after_delay_def exists_def unlink_def)

lemma run_tasks_result:
  "fst (run_tasks ps s) = [] \<and>
   fs (snd (run_tasks ps s)) = (\<lambda>q. if q \<in> set ps then None else fs s q) \<and>
   tasks (snd (run_tasks ps s)) = tasks s \<and> now (snd (run_tasks ps s)) = now s"
proof (induction ps arbitrary: s)
  case Nil
  then show ?case by simp
next
  case (Cons p ps)
  show ?case
    by (auto simp: delete_after_delay_result Cons.IH)
qed

lemma advance_result:
  "fst (advance d s) = [] \<and>
   fs (snd (advance d s)) =
     (\<lambda>q. if \<exists>wake. (wake, q) \<in> set (tasks s) \<and> wake \<le> now s + d then None else fs s q) \<and>
   tasks (snd (advance d s)) = filter (\<lambda>(wake, p). \<not> wake \<le> now s + d) (tasks s) \<and>
   now (snd (advance d s)) = now s + d"
  by (auto simp: advance_def Let_def run_tasks_result image_iff fun_eq_iff)

lemma run_events_no_error: "fst (run_events evs s) = []"
proof (induction evs s rule: run_events.induct)
  case (1 s)
  then show ?case by simp
next
  case (2 d evs s)
  then show ?case
    using advance_result[of d s] by (auto split: prod.splits)
next
  case (3 p evs s)
  then show ?case by (auto split: sum.splits)
qed

lemma run_events_stays_gone: "fs s p = None \<Longrightarrow> fs (snd (run_events evs s)) p = None"
proof (induction evs s rule: run_events.induct)
  case (1 s)
  then show ?case by simp
next
  case (2 d evs s)
  obtain es s1 where a: "advance d s = (es, s1)" by (cases "advance d s")
  with advance_result[of d s] 2(2) have "fs s1 p = None" by simp
  with 2(1)[OF a[symmetric]] a show ?case by (auto split: prod.splits)
next
  case (3 q evs s)
  then show ?case by (auto simp: unlink_def split: sum.splits if_splits)
qed

lemma run_events_fires:
  "(wake, p) \<in> set (tasks s) \<Longrightarrow> now s \<le> wake \<Longrightarrow> wake < now s + elapsed evs \<Longrightarrow>
   fs (snd (run_events evs s)) p = None"
proof (induction evs s rule: run_events.induct)
  case (1 s)
  then show ?case by simp
next
  case (2 d evs s)
  obtain es s1 where a: "advance d s = (es, s1)" by (cases "advance d s")
  note r = advance_result[of d s, unfolded a, simplified]
  show ?case
  proof (cases "wake \<le> now s + d")
    case True
    with r 2(2) have "fs s1 p = None" by auto
    from run_events_stays_gone[OF this, of evs] a show ?thesis by (auto split: prod.splits)
  next
    case False
    with r 2(2) have "(wake, p) \<in> set (tasks s1)" "now s1 \<le> wake" by auto
    moreover from r 2(4) have "wake < now s1 + elapsed evs" by simp
    ultimately have "fs (snd (run_events evs s1)) p = None"
      using 2(1)[OF a[symmetric]] by simp
    with a show ?thesis by (auto split: prod.splits)
  qed
next
  case (3 q evs s)
  then show ?case by (auto simp: unlink_def split: sum.splits if_splits)
qed

lemma scheduled_gone:
  "(now s + 300, q) \<in> set (tasks s') \<Longrightarrow> now s' = now s \<Longrightarrow> 300 < elapsed evs \<Longrightarrow>
   fs (snd (run_events evs s')) q = None"
  by (rule run_events_fires[where wake = "now s + 300"]) simp_all

section \<open>Validation before staging\<close>

text \<open>
  Claim C5. A rotate request whose angle is not one of 90, 180, 270, -90, -180, -270 is
  answered with status 400 and leaves the server's state as it was: no file is written.
  With one of the six angles and a PDF file name the request passes the checks and the
  body of the handler runs.
\<close>

theorem rotate_rejects_other_angles:
  "(angle \<notin> {90, 180, 270, - 90, - 180, - 270} \<longrightarrow>
      status_code (fst (rotate_pdf file angle pages s)) = 400 \<and>
      snd (rotate_pdf file angle pages s) = s) \<and>
   (angle \<in> {90, 180, 270, - 90, - 180, - 270} \<and> is_pdf_name file \<longrightarrow>
      rotate_pdf file angle pages s = except_Exception (rotate_body file angle pages s))"
  by (simp add: rotate_pdf_def)

theorem rotate_rejects_other_angles_witness:
  "(45::int) \<notin> {90, 180, 270, - 90, - 180, - 270} \<and>
   status_code (fst (rotate_pdf (sample_upload ''a.pdf'' [''A'']) 45 ''all'' fresh_server)) = 400 \<and>
   snd (rotate_pdf (sample_upload ''a.pdf'' [''A'']) 45 ''all'' fresh_server) = fresh_server \<and>
   (- 90::int) \<in> {90, 180, 270, - 90, - 180, - 270} \<and>
   is_pdf_name (sample_upload ''a.pdf'' [''A'']) \<and>
   rotate_pdf (sample_upload ''a.pdf'' [''A'']) (- 90) ''all'' fresh_server =
     except_Exception (rotate_body (sample_upload ''a.pdf'' [''A'']) (- 90) ''all'' fresh_server)"
proof -
  have pdf: "is_pdf_name (sample_upload ''a.pdf'' [''A''])"
    by (simp add: sample_upload_def py_eval)
  show ?thesis
    using pdf
      rotate_rejects_other_angles [of 45 "sample_upload ''a.pdf'' [''A'']" "''all''" fresh_server]
      rotate_rejects_other_angles [of "- 90" "sample_upload ''a.pdf'' [''A'']" "''all''" fresh_server]
    by simp
qed

text \<open>
  Claim C6. A protect request whose password has fewer than 4 characters is answered
  with status 400 and leaves the server's state as it was: nothing is staged.
\<close>

theorem protect_rejects_short_password:
  "length password < 4 \<Longrightarrow>
     status_code (fst (protect_pdf file password s)) = 400 \<and>
     snd (protect_pdf file password s) = s"
  by (simp add: protect_pdf_def)

theorem protect_rejects_short_password_witness:
  "length ''abc'' < 4 \<and>
   status_code (fst (protect_pdf (sample_upload ''a.pdf'' [''A'']) ''abc'' fresh_server)) = 400 \<and>
   snd (protect_pdf (sample_upload ''a.pdf'' [''A'']) ''abc'' fresh_server) = fresh_server"
  using protect_rejects_short_password [of "''abc''" "sample_upload ''a.pdf'' [''A'']" fresh_server]
  by simp

section \<open>Unlocking\<close>





section \<open>Page numbers\<close>




section \<open>Staged uploads\<close>

text \<open>
  Claim C1, as amended. When merge, split, rotate, pdf-to-images, protect, unlock or
  add-page-numbers returns a response, every upload the handler staged in the upload
  directory is gone from it in the state the handler leaves.
\<close>

theorem staged_files_removed_on_success:
  "(merge_pdfs files s = (Inr r, s') \<longrightarrow>
      (\<forall>p \<in> set (staged_paths files (rand s) (drawn s)). fs s' p = None)) \<and>
   (split_pdf file pages s = (Inr r, s') \<longrightarrow> fs s' (fst (save_upload file s)) = None) \<and>
   (rotate_pdf file angle pages s = (Inr r, s') \<longrightarrow> fs s' (fst (save_upload file s)) = None) \<and>
   (pdf_to_images SAVE file format dpi s = (Inr r, s') \<longrightarrow> fs s' (fst (save_upload file s)) = None) \<and>
   (protect_pdf file password s = (Inr r, s') \<longrightarrow> fs s' (fst (save_upload file s)) = None) \<and>
   (unlock_pdf file password s = (Inr r, s') \<longrightarrow> fs s' (fst (save_upload file s)) = None) \<and>
   (add_page_numbers file position start_from s = (Inr r, s') \<longrightarrow>
      fs s' (fst (save_upload file s)) = None)"
proof (intro conjI impI)
  assume "merge_pdfs files s = (Inr r, s')"
  from merge_pdfs_success[OF this]
  show "\<forall>p \<in> set (staged_paths files (rand s) (drawn s)). fs s' p = None" by simp
next
  assume "split_pdf file pages s = (Inr r, s')"
  from split_pdf_success[OF this] show "fs s' (fst (save_upload file s)) = None" by simp
next
  assume "rotate_pdf file angle pages s = (Inr r, s')"
  from rotate_pdf_success[OF this] show "fs s' (fst (save_upload file s)) = None" by simp
next
  assume "pdf_to_images SAVE file format dpi s = (Inr r, s')"
  from pdf_to_images_success[OF this] show "fs s' (fst (save_upload file s)) = None" by simp
next
  assume "protect_pdf file password s = (Inr r, s')"
  from protect_pdf_success[OF this] show "fs s' (fst (save_upload file s)) = None" by simp
next
  assume "unlock_pdf file password s = (Inr r, s')"
  from unlock_pdf_success[OF this] show "fs s' (fst (save_upload file s)) = None" by simp
next
  assume "add_page_numbers file position start_from s = (Inr r, s')"
  from add_page_numbers_success[OF this] show "fs s' (fst (save_upload file s)) = None" by simp
qed

theorem staged_files_removed_on_success_witness:
  "(\<exists>r. fst (merge_pdfs [sample_upload ''a.pdf'' [''A''], sample_upload ''b.pdf'' [''B'']]
               fresh_server) = Inr r) \<and>
   staged_paths [sample_upload ''a.pdf'' [''A''], sample_upload ''b.pdf'' [''B'']]
       (rand fresh_server) (drawn fresh_server) =
     [(UPLOAD_DIR, ''00000000-0000-0000-0000-000000000000_a.pdf''),
      (UPLOAD_DIR, ''10000000-0000-0000-0000-000000000000_b.pdf'')] \<and>
   fs (snd (merge_pdfs [sample_upload ''a.pdf'' [''A''], sample_upload ''b.pdf'' [''B'']]
              fresh_server))
      (UPLOAD_DIR, ''00000000-0000-0000-0000-000000000000_a.pdf'') = None \<and>
   fs (snd (merge_pdfs [sample_upload ''a.pdf'' [''A''], sample_upload ''b.pdf'' [''B'']]
              fresh_server))
      (UPLOAD_DIR, ''10000000-0000-0000-0000-000000000000_b.pdf'') = None"
proof -
  let ?files = "[sample_upload ''a.pdf'' [''A''], sample_upload ''b.pdf'' [''B'']]"
  have run: "\<exists>r. fst (merge_pdfs ?files fresh_server) = Inr r"
    by (simp add: merge_pdfs_def merge_body_def py_eval io_eval)
  then obtain r where "merge_pdfs ?files fresh_server = (Inr r, snd (merge_pdfs ?files fresh_server))"
    by (metis prod.collapse)
  with staged_files_removed_on_success [of ?files fresh_server r "snd (merge_pdfs ?files fresh_server)"]
  have gone: "\<forall>p \<in> set (staged_paths ?files (rand fresh_server) (drawn fresh_server)).
                fs (snd (merge_pdfs ?files fresh_server)) p = None"
    by blast
  have paths: "staged_paths ?files (rand fresh_server) (drawn fresh_server) =
     [(UPLOAD_DIR, ''00000000-0000-0000-0000-000000000000_a.pdf''),
      (UPLOAD_DIR, ''10000000-0000-0000-0000-000000000000_b.pdf'')]"
    by (simp add: py_eval io_eval)
  from gone have "fs (snd (merge_pdfs ?files fresh_server))
      (UPLOAD_DIR, ''00000000-0000-0000-0000-000000000000_a.pdf'') = None"
    and "fs (snd (merge_pdfs ?files fresh_server))
      (UPLOAD_DIR, ''10000000-0000-0000-0000-000000000000_b.pdf'') = None"
    unfolding paths by simp_all
  with run paths show ?thesis by blast
qed

text \<open>
  Claim C1 as it was written fails on the error exits. A second upload that is not a PDF
  stops merge with a 500 and the first upload stays in the upload directory; an upload
  the reader cannot read stops split with a 500 and the upload stays there.
\<close>

theorem staged_files_left_on_error:
  "staged_paths [sample_upload ''a.pdf'' [''A''], sample_upload ''b.txt'' [''B'']]
       (rand fresh_server) (drawn fresh_server) ! 0 =
     (UPLOAD_DIR, ''00000000-0000-0000-0000-000000000000_a.pdf'') \<and>
   fst (merge_pdfs [sample_upload ''a.pdf'' [''A''], sample_upload ''b.txt'' [''B'']] fresh_server) =
     Inl (HTTPException 500 (StrOf (HTTPException 400 (Msg ''File b.txt is not a PDF'')))) \<and>
   fs (snd (merge_pdfs [sample_upload ''a.pdf'' [''A''], sample_upload ''b.txt'' [''B'']] fresh_server))
      (UPLOAD_DIR, ''00000000-0000-0000-0000-000000000000_a.pdf'') = Some (sample_pdf [''A'']) \<and>
   fst (save_upload \<lparr>filename = ''c.pdf'', data = Unreadable\<rparr> fresh_server) =
     (UPLOAD_DIR, ''00000000-0000-0000-0000-000000000000_c.pdf'') \<and>
   fst (split_pdf \<lparr>filename = ''c.pdf'', data = Unreadable\<rparr> '''' fresh_server) =
     Inl (HTTPException 500 (StrOf PdfReadError)) \<and>
   fs (snd (split_pdf \<lparr>filename = ''c.pdf'', data = Unreadable\<rparr> '''' fresh_server))
      (UPLOAD_DIR, ''00000000-0000-0000-0000-000000000000_c.pdf'') = Some Unreadable"
  by (simp add: merge_pdfs_def merge_body_def split_pdf_def split_body_def py_eval io_eval)

section \<open>Retention\<close>

text \<open>
  Claim C4. After \<^verbatim>\<open>cleanup_file\<close> has registered a path with a delay, whatever
  happens among the passing of time and removals of files, no deletion task raises; once
  more time than the delay has passed the path does not exist. A task that wakes up on a
  file that is already gone leaves the state as it is. The handlers register the file
  they return with a delay of 300 seconds, so it does not exist once more than 300
  seconds have passed.
\<close>

theorem scheduled_deletion:
  "fst (run_events evs (cleanup_file p delay s)) = [] \<and>
   (delay < elapsed evs \<longrightarrow> fs (snd (run_events evs (cleanup_file p delay s))) p = None) \<and>
   (fs s p = None \<longrightarrow> delete_after_delay p s = Inr s) \<and>
   (300 < elapsed evs \<longrightarrow>
      (merge_pdfs files s = (Inr r, s') \<longrightarrow> fs (snd (run_events evs s')) (resp_path r) = None) \<and>
      (split_pdf file pages s = (Inr r, s') \<longrightarrow> fs (snd (run_events evs s')) (resp_path r) = None) \<and>
      (rotate_pdf file angle pages s = (Inr r, s') \<longrightarrow> fs (snd (run_events evs s')) (resp_path r) = None) \<and>
      (pdf_to_images SAVE file format dpi s = (Inr r, s') \<longrightarrow>
         fs (snd (run_events evs s')) (resp_path r) = None) \<and>
      (protect_pdf file password s = (Inr r, s') \<longrightarrow> fs (snd (run_events evs s')) (resp_path r) = None) \<and>
      (unlock_pdf file password s = (Inr r, s') \<longrightarrow> fs (snd (run_events evs s')) (resp_path r) = None) \<and>
      (add_page_numbers file position start_from s = (Inr r, s') \<longrightarrow>
         fs (snd (run_events evs s')) (resp_path r) = None))"
proof -
  have 1: "fst (run_events evs (cleanup_file p delay s)) = []"
    by (rule run_events_no_error)
  have 2: "fs (snd (run_events evs (cleanup_file p delay s))) p = None" if "delay < elapsed evs"
    using that by (intro run_events_fires[where wake = "now s + delay"]) (simp_all add: cleanup_file_def)
  have 3: "delete_after_delay p s = Inr s" if "fs s p = None"
    using that by (simp add: delete_after_delay_result)
  have 4: "fs (snd (run_events evs s')) (resp_path r) = None"
    if "300 < elapsed evs" "(now s + 300, resp_path r) \<in> set (tasks s') \<and> now s' = now s"
    using that scheduled_gone[of s "resp_path r" s' evs] by simp
  show ?thesis
  proof (intro conjI impI)
    show "fst (run_events evs (cleanup_file p delay s)) = []" by (rule 1)
    show "fs (snd (run_events evs (cleanup_file p delay s))) p = None" if "delay < elapsed evs"
      by (rule 2[OF that])
    show "delete_after_delay p s = Inr s" if "fs s p = None" by (rule 3[OF that])
    show "fs (snd (run_events evs s')) (resp_path r) = None"
      if "300 < elapsed evs" "merge_pdfs files s = (Inr r, s')"
      using 4[OF that(1)] merge_pdfs_success[OF that(2)] by simp
    show "fs (snd (run_events evs s')) (resp_path r) = None"
      if "300 < elapsed evs" "split_pdf file pages s = (Inr r, s')"
      using 4[OF that(1)] split_pdf_success[OF that(2)] by simp
    show "fs (snd (run_events evs s')) (resp_path r) = None"
      if "300 < elapsed evs" "rotate_pdf file angle pages s = (Inr r, s')"
      using 4[OF that(1)] rotate_pdf_success[OF that(2)] by simp
    show "fs (snd (run_events evs s')) (resp_path r) = None"
      if "300 < elapsed evs" "pdf_to_images SAVE file format dpi s = (Inr r, s')"
      using 4[OF that(1)] pdf_to_images_success[OF that(2)] by simp
    show "fs (snd (run_events evs s')) (resp_path r) = None"
      if "300 < elapsed evs" "protect_pdf file password s = (Inr r, s')"
      using 4[OF that(1)] protect_pdf_success[OF that(2)] by simp
    show "fs (snd (run_events evs s')) (resp_path r) = None"
      if "300 < elapsed evs" "unlock_pdf file password s = (Inr r, s')"
      using 4[OF that(1)] unlock_pdf_success[OF that(2)] by simp
    show "fs (snd (run_events evs s')) (resp_path r) = None"
      if "300 < elapsed evs" "add_page_numbers file position start_from s = (Inr r, s')"
      using 4[OF that(1)] add_page_numbers_success[OF that(2)] by simp
  qed
qed

theorem scheduled_deletion_witness:
  "300 < elapsed [Tick 100, Remove artifact, Tick 201] \<and>
   fst (run_events [Tick 100, Remove artifact, Tick 201]
          (cleanup_file artifact 300 (write_file artifact (sample_pdf [''A'']) fresh_server))) = [] \<and>
   fs (snd (run_events [Tick 100, Remove artifact, Tick 201]
          (cleanup_file artifact 300 (write_file artifact (sample_pdf [''A'']) fresh_server)))) artifact = None \<and>
   fs (snd (run_events [Tick 301]
          (cleanup_file artifact 300 (write_file artifact (sample_pdf [''A'']) fresh_server)))) artifact = None \<and>
   fs (snd (run_events [Tick 299]
          (cleanup_file artifact 300 (write_file artifact (sample_pdf [''A'']) fresh_server)))) artifact
     = Some (sample_pdf [''A''])"
proof -
  have "fs (snd (run_events [Tick 299]
          (cleanup_file artifact 300 (write_file artifact (sample_pdf [''A'']) fresh_server)))) artifact
     = Some (sample_pdf [''A''])"
    by (simp add: advance_def delete_after_delay_def io_eval)
  then show ?thesis
    using scheduled_deletion [of "[Tick 100, Remove artifact, Tick 201]" artifact 300
        "write_file artifact (sample_pdf [''A'']) fresh_server"]
      scheduled_deletion [of "[Tick 301]" artifact 300
        "write_file artifact (sample_pdf [''A'']) fresh_server"]
    by simp
qed

section \<open>Page ranges of split and rotate\<close>








section \<open>Status codes\<close>







section \<open>The image of pdf-to-images\<close>





end
